theory Spec2Isabelle
  imports Main "HOL-Library.Sublist" "HOL-Library.Multiset"
begin

section \<open>The user-agent builder (flapjacksearch/http/user\_agent.py)\<close>

text \<open>
  \<^verbatim>\<open>UserAgent\<close> is a Python class with one mutable attribute, \<^verbatim>\<open>value\<close>.
  Its method \<^verbatim>\<open>add\<close> mutates the receiver and returns it, so object identity
  matters: objects live in a store (a list indexed by reference) and every method
  takes the store and the reference \<open>self\<close>.

  The constructor reads two values that are not part of this file: the package's
  \<^verbatim>\<open>__version__\<close> and the result of \<^verbatim>\<open>platform.python_version()\<close>. Both are
  strings and are parameters of the model.
\<close>

record UserAgent =
  ua_value :: string

type_synonym ref = nat
type_synonym heap = "UserAgent list"

text \<open>
  \<^verbatim>\<open>self.value = "Flapjack for Python ({}); Python ({})".format(__version__, str(python_version()))\<close>
\<close>

definition UserAgent_init :: "string \<Rightarrow> string \<Rightarrow> UserAgent" where
  "UserAgent_init version python_version =
     \<lparr>ua_value = ''Flapjack for Python ('' @ version @ ''); Python ('' @ python_version @ '')''\<rparr>"

text \<open>\<^verbatim>\<open>UserAgent()\<close>: allocate a new object and run \<^verbatim>\<open>__init__\<close> on it.\<close>

definition new_UserAgent :: "heap \<Rightarrow> string \<Rightarrow> string \<Rightarrow> heap \<times> ref" where
  "new_UserAgent h version python_version =
     (h @ [UserAgent_init version python_version], length h)"

text \<open>\<^verbatim>\<open>def get(self): return self.value\<close>\<close>

definition get :: "heap \<Rightarrow> ref \<Rightarrow> string" where
  "get h self = ua_value (h ! self)"

text \<open>The statement \<^verbatim>\<open>self.value += s\<close>.\<close>

definition append_value :: "heap \<Rightarrow> ref \<Rightarrow> string \<Rightarrow> heap" where
  "append_value h self s = h[self := (h ! self)\<lparr>ua_value := ua_value (h ! self) @ s\<rparr>]"

text \<open>
  \<^verbatim>\<open>
  def add(self, segment, version=None):
      self.value += "; {}".format(segment)
      if version is not None:
          self.value += " ({})".format(version)
      return self
  \<close>
\<close>

definition add :: "heap \<Rightarrow> ref \<Rightarrow> string \<Rightarrow> string option \<Rightarrow> heap \<times> ref" where
  "add h self segment version =
     (let h1 = append_value h self (''; '' @ segment);
          h2 = (case version of
                  None \<Rightarrow> h1
                | Some v \<Rightarrow> append_value h1 self ('' ('' @ v @ '')''))
      in (h2, self))"

text \<open>A finite sequence of method calls on the objects of a store, run in order.\<close>

datatype call = Add ref string "string option" | Get ref

fun run :: "heap \<Rightarrow> call list \<Rightarrow> heap" where
  "run h [] = h"
| "run h (Add r segment version # cs) = run (fst (add h r segment version)) cs"
| "run h (Get r # cs) = run h cs"

section \<open>The host registry (flapjacksearch/http/hosts.py)\<close>

text \<open>
  The end-to-end tests import \<^verbatim>\<open>Host\<close>, \<^verbatim>\<open>HostsCollection\<close> and \<^verbatim>\<open>CallType\<close> from
  \<^verbatim>\<open>flapjacksearch.http.hosts\<close> and build
  \<^verbatim>\<open>HostsCollection([Host(url="localhost:7700", scheme="http", accept=CallType.READ | CallType.WRITE)])\<close>,
  but the module itself is not among the source files. Its definitions below follow
  sections 3 and 4.1 of the specification.
\<close>

text \<open>
  Modelled from the spec: \<^verbatim>\<open>CallType\<close> (module \<^verbatim>\<open>hosts\<close> is missing), "a flag
  enumeration {READ, WRITE, READ|WRITE}".
\<close>

datatype CallType = READ | WRITE | READ_WRITE

text \<open>Modelled from the spec: whether the read flag is set in a \<^verbatim>\<open>CallType\<close>.\<close>

fun has_read :: "CallType \<Rightarrow> bool" where
  "has_read READ = True"
| "has_read WRITE = False"
| "has_read READ_WRITE = True"

text \<open>Modelled from the spec: whether the write flag is set in a \<^verbatim>\<open>CallType\<close>.\<close>

fun has_write :: "CallType \<Rightarrow> bool" where
  "has_write READ = False"
| "has_write WRITE = True"
| "has_write READ_WRITE = True"

text \<open>
  Modelled from the spec: the flags are "bitwise-composable"; this is the \<^verbatim>\<open>|\<close> the
  tests apply to \<^verbatim>\<open>CallType.READ\<close> and \<^verbatim>\<open>CallType.WRITE\<close>.
\<close>

fun call_type_or :: "CallType \<Rightarrow> CallType \<Rightarrow> CallType" where
  "call_type_or READ READ = READ"
| "call_type_or WRITE WRITE = WRITE"
| "call_type_or a b = READ_WRITE"

text \<open>
  Modelled from the spec: a host serves a call type when its \<^verbatim>\<open>accepted_call_types\<close> "is
  a superset of \<^verbatim>\<open>call_type\<close>": every flag the call requires is a flag the host accepts.
\<close>

definition accepts :: "CallType \<Rightarrow> CallType \<Rightarrow> bool" where
  "accepts accepted call_type \<longleftrightarrow>
     (has_read call_type \<longrightarrow> has_read accepted) \<and> (has_write call_type \<longrightarrow> has_write accepted)"

text \<open>
  Modelled from the spec: the health of a host, "one of {up, down-until(timestamp)}".
  Timestamps are natural numbers (ticks of the clock).
\<close>

datatype Health = Up | DownUntil nat

text \<open>
  Modelled from the spec: the \<^verbatim>\<open>Host\<close> entity of section 3, with the fields \<^verbatim>\<open>url\<close>,
  \<^verbatim>\<open>scheme\<close>, \<^verbatim>\<open>accepted_call_types\<close>, \<^verbatim>\<open>priority\<close> (lower is preferred) and
  \<^verbatim>\<open>health\<close>.
\<close>

record Host =
  url :: string
  scheme :: string
  accepted_call_types :: CallType
  priority :: int
  health :: Health

text \<open>
  Modelled from the spec: the registry, a \<^verbatim>\<open>HostsCollection\<close> ("an ordered list of Host")
  together with the cooldown, "a fixed configuration value". A host object is named by
  its position in the collection; that position is what \<^verbatim>\<open>mark_success(host)\<close> and
  \<^verbatim>\<open>mark_failure(host, now)\<close> receive.
\<close>

record Registry =
  hosts :: "Host list"
  cooldown :: nat

text \<open>
  Modelled from the spec: a collection "must contain at least one host accepting read
  and at least one accepting write, or configuration is invalid".
\<close>

definition valid_collection :: "Host list \<Rightarrow> bool" where
  "valid_collection hs \<longleftrightarrow>
     list_ex (\<lambda>h. has_read (accepted_call_types h)) hs \<and>
     list_ex (\<lambda>h. has_write (accepted_call_types h)) hs"

text \<open>
  Modelled from the spec: \<^verbatim>\<open>filter(call_type)\<close> "returns only hosts whose
  \<^verbatim>\<open>accepted_call_types\<close> is a superset of \<^verbatim>\<open>call_type\<close>, ordered by priority then original
  insertion order (stable sort)". \<^const>\<open>sort_key\<close> is the stable insertion sort of the
  library.
\<close>

definition filter_hosts :: "Host list \<Rightarrow> CallType \<Rightarrow> Host list" where
  "filter_hosts hs call_type =
     sort_key priority (filter (\<lambda>h. accepts (accepted_call_types h) call_type) hs)"

text \<open>
  Modelled from the spec: "\<^verbatim>\<open>mark_success(host)\<close> clears any down state on \<^verbatim>\<open>host\<close>".
  A position outside the collection names no host, and nothing changes.
\<close>

definition mark_success :: "Registry \<Rightarrow> nat \<Rightarrow> Registry" where
  "mark_success reg i =
     (if i < length (hosts reg)
      then reg\<lparr>hosts := (hosts reg)[i := (hosts reg ! i)\<lparr>health := Up\<rparr>]\<rparr>
      else reg)"

text \<open>
  Modelled from the spec: "\<^verbatim>\<open>mark_failure(host, now)\<close> sets
  \<^verbatim>\<open>health = down-until(now + cooldown)\<close>".
\<close>

definition mark_failure :: "Registry \<Rightarrow> nat \<Rightarrow> nat \<Rightarrow> Registry" where
  "mark_failure reg i now =
     (if i < length (hosts reg)
      then reg\<lparr>hosts := (hosts reg)[i := (hosts reg ! i)\<lparr>health := DownUntil (now + cooldown reg)\<rparr>]\<rparr>
      else reg)"

text \<open>A collection of four hosts, used to run the definitions on a concrete input.\<close>

definition example_hosts :: "Host list" where
  "example_hosts =
     [\<lparr>url = ''a:7700'', scheme = ''http'', accepted_call_types = READ, priority = 2, health = Up\<rparr>,
      \<lparr>url = ''b:7700'', scheme = ''http'', accepted_call_types = WRITE, priority = 1, health = Up\<rparr>,
      \<lparr>url = ''c:7700'', scheme = ''http'', accepted_call_types = READ_WRITE, priority = 1,
        health = DownUntil 50\<rparr>,
      \<lparr>url = ''d:7700'', scheme = ''https'', accepted_call_types = call_type_or READ WRITE,
        priority = 2, health = Up\<rparr>]"


section \<open>Properties of the user-agent builder\<close>

lemma length_append_value [simp]: "length (append_value h r s) = length h"
  by (simp add: append_value_def)

lemma get_append_value_same:
  "r < length h \<Longrightarrow> get (append_value h r s) r = get h r @ s"
  by (simp add: get_def append_value_def)

lemma get_append_value_other:
  "u \<noteq> r \<Longrightarrow> get (append_value h r s) u = get h u"
  by (simp add: get_def append_value_def)

lemma length_add [simp]: "length (fst (add h r s v)) = length h"
  by (simp add: add_def Let_def split: option.split)

lemma get_add_same:
  "r < length h \<Longrightarrow>
   get (fst (add h r s v)) r =
     get h r @ ''; '' @ s @ (case v of None \<Rightarrow> [] | Some w \<Rightarrow> '' ('' @ w @ '')'')"
  by (simp add: add_def Let_def get_append_value_same split: option.split)

lemma get_add_other: "u \<noteq> r \<Longrightarrow> get (fst (add h r s v)) u = get h u"
  by (simp add: add_def Let_def get_append_value_other split: option.split)

lemma prefix_get_add: "u < length h \<Longrightarrow> prefix (get h u) (get (fst (add h r s v)) u)"
  by (cases "u = r") (simp_all add: get_add_same get_add_other)

lemma length_run [simp]: "length (run h cs) = length h"
  by (induction h cs rule: run.induct) simp_all

lemma prefix_get_run: "u < length h \<Longrightarrow> prefix (get h u) (get (run h cs) u)"
proof (induction h cs rule: run.induct)
  case (1 h)
  show ?case by simp
next
  case (2 h r segment version cs)
  have "prefix (get h u) (get (fst (add h r segment version)) u)"
    using "2.prems" by (rule prefix_get_add)
  moreover have "prefix (get (fst (add h r segment version)) u)
                        (get (run (fst (add h r segment version)) cs) u)"
    using "2.prems" by (intro "2.IH") simp
  ultimately show ?case
    by simp
next
  case (3 h r cs)
  then show ?case by simp
qed

lemma get_new_UserAgent:
  "get (fst (new_UserAgent h V P)) (snd (new_UserAgent h V P)) =
     ''Flapjack for Python ('' @ V @ ''); Python ('' @ P @ '')''"
  by (simp add: new_UserAgent_def get_def UserAgent_init_def)


text \<open>
  Claim C8. A freshly constructed \<^verbatim>\<open>UserAgent\<close> has \<^verbatim>\<open>get()\<close> equal to
  \<^verbatim>\<open>"Flapjack for Python (V); Python (P)"\<close>, where \<open>V\<close> is the package version and
  \<open>P\<close> the running Python version; in particular the value begins with
  \<^verbatim>\<open>"Flapjack for Python"\<close>. The object is new: its reference is not one of the
  store before the call, and the objects already there are untouched.
\<close>

theorem C8_fresh_user_agent_value:
  "get (fst (new_UserAgent h V P)) (snd (new_UserAgent h V P)) =
     ''Flapjack for Python ('' @ V @ ''); Python ('' @ P @ '')''
   \<and> prefix ''Flapjack for Python'' (get (fst (new_UserAgent h V P)) (snd (new_UserAgent h V P)))
   \<and> snd (new_UserAgent h V P) = length h
   \<and> take (length h) (fst (new_UserAgent h V P)) = h"
  by (simp add: new_UserAgent_def get_def UserAgent_init_def)

theorem C8_fresh_user_agent_value_witness:
  "get (fst (new_UserAgent [] ''4.0.0'' ''3.11.4'')) (snd (new_UserAgent [] ''4.0.0'' ''3.11.4'')) =
     ''Flapjack for Python (4.0.0); Python (3.11.4)''"
  using conjunct1 [OF C8_fresh_user_agent_value [of "[]" "''4.0.0''" "''3.11.4''"]] by simp


text \<open>
  Claim C9. For a \<^verbatim>\<open>UserAgent\<close> \<open>u\<close>, a segment \<open>s\<close> and an optional version \<open>v\<close>,
  \<^verbatim>\<open>u.add(s, v)\<close> returns the same object \<open>u\<close>, and afterwards \<^verbatim>\<open>u.get()\<close> is the
  previous value followed by \<^verbatim>\<open>"; s (v)"\<close> when \<open>v\<close> is not \<^verbatim>\<open>None\<close> and by
  \<^verbatim>\<open>"; s"\<close> when it is. Because the result is the receiver, calls chain.
\<close>

theorem C9_add_returns_self_and_appends:
  assumes "u < length h"
  shows "snd (add h u s v) = u
       \<and> get (fst (add h u s v)) u =
           (case v of
              None \<Rightarrow> get h u @ ''; '' @ s
            | Some w \<Rightarrow> get h u @ ''; '' @ s @ '' ('' @ w @ '')'')
       \<and> length (fst (add h u s v)) = length h
       \<and> get (fst (add (fst (add h u s v)) (snd (add h u s v)) s' None)) u =
           get (fst (add h u s v)) u @ ''; '' @ s'"
proof -
  have self: "snd (add h u s v) = u"
    by (simp add: add_def Let_def)
  have val: "get (fst (add h u s v)) u =
      (case v of None \<Rightarrow> get h u @ ''; '' @ s
               | Some w \<Rightarrow> get h u @ ''; '' @ s @ '' ('' @ w @ '')'')"
    using assms by (simp add: get_add_same split: option.split)
  have len: "length (fst (add h u s v)) = length h"
    by simp
  have chain: "get (fst (add (fst (add h u s v)) (snd (add h u s v)) s' None)) u =
      get (fst (add h u s v)) u @ ''; '' @ s'"
    using assms by (simp add: self get_add_same)
  from self val len chain show ?thesis by blast
qed

theorem C9_add_returns_self_and_appends_witness:
  "snd (add [\<lparr>ua_value = ''Flapjack''\<rparr>] 0 ''TestApp'' (Some ''1.0.0'')) = 0
   \<and> get (fst (add [\<lparr>ua_value = ''Flapjack''\<rparr>] 0 ''TestApp'' (Some ''1.0.0''))) 0 =
       ''Flapjack; TestApp (1.0.0)''"
proof -
  have valid: "(0::nat) < length [\<lparr>ua_value = ''Flapjack''\<rparr>]"
    by simp
  have start: "get [\<lparr>ua_value = ''Flapjack''\<rparr>] 0 = ''Flapjack''"
    by (simp add: get_def)
  from C9_add_returns_self_and_appends [OF valid, of "''TestApp''" "Some ''1.0.0''"] start
  show ?thesis by simp
qed


text \<open>
  Claim C10. For every finite sequence of calls (to \<^verbatim>\<open>add\<close> and \<^verbatim>\<open>get\<close>, on this or any
  other \<^verbatim>\<open>UserAgent\<close> of the store), the value of \<^verbatim>\<open>get()\<close> before a call is a prefix
  of the value after it: \<^verbatim>\<open>add\<close> only appends. Hence the text
  \<^verbatim>\<open>"Flapjack for Python"\<close> written by the constructor remains a substring of
  \<^verbatim>\<open>get()\<close> after any sequence of operations.
\<close>

theorem C10_add_only_appends:
  assumes "u < length h"
  shows "prefix (get h u) (get (fst (add h u s v)) u)
       \<and> prefix (get h u) (get (run h cs) u)
       \<and> (sublist ''Flapjack for Python'' (get h u)
            \<longrightarrow> sublist ''Flapjack for Python'' (get (run h cs) u))
       \<and> sublist ''Flapjack for Python''
            (get (run (fst (new_UserAgent h V P)) cs) (snd (new_UserAgent h V P)))"
proof -
  have step: "prefix (get h u) (get (fst (add h u s v)) u)"
    using assms by (rule prefix_get_add)
  have many: "prefix (get h u) (get (run h cs) u)"
    using assms by (rule prefix_get_run)
  have keep: "sublist ''Flapjack for Python'' (get (run h cs) u)"
    if "sublist ''Flapjack for Python'' (get h u)"
    using that prefix_imp_sublist [OF many] by (rule sublist_order.order_trans)
  let ?h' = "fst (new_UserAgent h V P)" and ?r = "snd (new_UserAgent h V P)"
  have "?r < length ?h'"
    by (simp add: new_UserAgent_def)
  then have "prefix (get ?h' ?r) (get (run ?h' cs) ?r)"
    by (rule prefix_get_run)
  moreover have "prefix ''Flapjack for Python'' (get ?h' ?r)"
    by (simp add: get_new_UserAgent)
  ultimately have "prefix ''Flapjack for Python'' (get (run ?h' cs) ?r)"
    by (rule prefix_order.trans [rotated])
  then have fresh: "sublist ''Flapjack for Python'' (get (run ?h' cs) ?r)"
    by (rule prefix_imp_sublist)
  from step many keep fresh show ?thesis by blast
qed

theorem C10_add_only_appends_witness:
  "prefix ''Flapjack for Python (4.0.0); Python (3.11.4)''
     (get (run [UserAgent_init ''4.0.0'' ''3.11.4'']
             [Add 0 ''TestApp'' (Some ''1.0.0''), Get 0, Add 0 ''Other'' None]) 0)
   \<and> get (run [UserAgent_init ''4.0.0'' ''3.11.4'']
             [Add 0 ''TestApp'' (Some ''1.0.0''), Get 0, Add 0 ''Other'' None]) 0 =
       ''Flapjack for Python (4.0.0); Python (3.11.4); TestApp (1.0.0); Other''"
proof -
  have valid: "(0::nat) < length [UserAgent_init ''4.0.0'' ''3.11.4'']"
    by simp
  have start: "get [UserAgent_init ''4.0.0'' ''3.11.4''] 0 =
      ''Flapjack for Python (4.0.0); Python (3.11.4)''"
    by (simp add: get_def UserAgent_init_def)
  have final: "get (run [UserAgent_init ''4.0.0'' ''3.11.4'']
             [Add 0 ''TestApp'' (Some ''1.0.0''), Get 0, Add 0 ''Other'' None]) 0 =
       ''Flapjack for Python (4.0.0); Python (3.11.4); TestApp (1.0.0); Other''"
    by (simp add: get_def UserAgent_init_def add_def append_value_def)
  from C10_add_only_appends [OF valid,
      of "''x''" None "[Add 0 ''TestApp'' (Some ''1.0.0''), Get 0, Add 0 ''Other'' None]"]
  have "prefix (get [UserAgent_init ''4.0.0'' ''3.11.4''] 0)
     (get (run [UserAgent_init ''4.0.0'' ''3.11.4'']
             [Add 0 ''TestApp'' (Some ''1.0.0''), Get 0, Add 0 ''Other'' None]) 0)"
    by blast
  with start final show ?thesis by (simp del: prefix_code)
qed


section \<open>Properties of the host registry\<close>

lemma accepts_READ: "accepts a READ \<longleftrightarrow> has_read a"
  by (simp add: accepts_def)

lemma has_read_iff: "has_read a \<longleftrightarrow> a \<noteq> WRITE"
  by (cases a) simp_all

lemma mset_filter_hosts:
  "mset (filter_hosts hs ct) = mset (filter (\<lambda>h. accepts (accepted_call_types h) ct) hs)"
  by (simp add: filter_hosts_def)

lemma sorted_filter_hosts: "sorted (map priority (filter_hosts hs ct))"
  by (simp add: filter_hosts_def)

lemma stable_filter_hosts:
  "filter (\<lambda>h. priority h = p) (filter_hosts hs ct) =
   filter (\<lambda>h. priority h = p) (filter (\<lambda>h. accepts (accepted_call_types h) ct) hs)"
  unfolding filter_hosts_def by (rule sort_key_stable)

lemma set_filter_hosts:
  "set (filter_hosts hs ct) = {h \<in> set hs. accepts (accepted_call_types h) ct}"
  by (simp add: filter_hosts_def)

lemma hosts_mark_success:
  "i < length (hosts reg) \<Longrightarrow>
   hosts (mark_success reg i) = (hosts reg)[i := (hosts reg ! i)\<lparr>health := Up\<rparr>]"
  by (simp add: mark_success_def)

lemma hosts_mark_failure:
  "i < length (hosts reg) \<Longrightarrow>
   hosts (mark_failure reg i now) =
     (hosts reg)[i := (hosts reg ! i)\<lparr>health := DownUntil (now + cooldown reg)\<rparr>]"
  by (simp add: mark_failure_def)

lemma cooldown_mark_success [simp]: "cooldown (mark_success reg i) = cooldown reg"
  by (simp add: mark_success_def)

lemma cooldown_mark_failure [simp]: "cooldown (mark_failure reg i now) = cooldown reg"
  by (simp add: mark_failure_def)

lemma length_hosts_mark_success [simp]:
  "length (hosts (mark_success reg i)) = length (hosts reg)"
  by (simp add: mark_success_def)

lemma length_hosts_mark_failure [simp]:
  "length (hosts (mark_failure reg i now)) = length (hosts reg)"
  by (simp add: mark_failure_def)


text \<open>
  Claim C1. For every \<^verbatim>\<open>HostsCollection\<close> with at least one read-capable and one
  write-capable host, \<^verbatim>\<open>filter(READ)\<close> returns exactly the hosts whose
  \<^verbatim>\<open>accepted_call_types\<close> include \<^verbatim>\<open>READ\<close> (each as often as it is in the collection),
  ordered by priority, and among hosts of one priority \<open>p\<close> in their order of insertion;
  no host lacking \<^verbatim>\<open>READ\<close> is in the result, and the result is not empty.
\<close>

theorem C1_filter_read_sorted_stable:
  assumes "valid_collection hs"
  shows "mset (filter_hosts hs READ) = mset (filter (\<lambda>h. has_read (accepted_call_types h)) hs)
       \<and> sorted (map priority (filter_hosts hs READ))
       \<and> filter (\<lambda>h. priority h = p) (filter_hosts hs READ) =
           filter (\<lambda>h. priority h = p) (filter (\<lambda>h. has_read (accepted_call_types h)) hs)
       \<and> (\<forall>h \<in> set (filter_hosts hs READ). h \<in> set hs \<and> accepted_call_types h \<noteq> WRITE)
       \<and> filter_hosts hs READ \<noteq> []"
proof -
  have exact: "mset (filter_hosts hs READ) =
      mset (filter (\<lambda>h. has_read (accepted_call_types h)) hs)"
    by (simp add: mset_filter_hosts accepts_READ)
  have ordered: "sorted (map priority (filter_hosts hs READ))"
    by (rule sorted_filter_hosts)
  have stable: "filter (\<lambda>h. priority h = p) (filter_hosts hs READ) =
      filter (\<lambda>h. priority h = p) (filter (\<lambda>h. has_read (accepted_call_types h)) hs)"
    by (simp add: stable_filter_hosts accepts_READ)
  have only: "\<forall>h \<in> set (filter_hosts hs READ). h \<in> set hs \<and> accepted_call_types h \<noteq> WRITE"
    by (simp add: set_filter_hosts accepts_READ has_read_iff)
  from assms obtain h where "h \<in> set hs" and "has_read (accepted_call_types h)"
    by (auto simp: valid_collection_def list_ex_iff)
  then have "h \<in> set (filter_hosts hs READ)"
    by (simp add: set_filter_hosts accepts_READ)
  then have nonempty: "filter_hosts hs READ \<noteq> []"
    by auto
  from exact ordered stable only nonempty show ?thesis
    by blast
qed

theorem C1_filter_read_sorted_stable_witness:
  "valid_collection example_hosts
   \<and> filter_hosts example_hosts READ = [example_hosts ! 2, example_hosts ! 0, example_hosts ! 3]
   \<and> sorted (map priority (filter_hosts example_hosts READ))
   \<and> filter (\<lambda>h. priority h = 2) (filter_hosts example_hosts READ) =
       [example_hosts ! 0, example_hosts ! 3]"
proof -
  have valid: "valid_collection example_hosts"
    by (simp add: valid_collection_def example_hosts_def)
  have result: "filter_hosts example_hosts READ =
      [example_hosts ! 2, example_hosts ! 0, example_hosts ! 3]"
    by (simp add: filter_hosts_def example_hosts_def accepts_def)
  have same: "filter (\<lambda>h. priority h = 2)
        (filter (\<lambda>h. has_read (accepted_call_types h)) example_hosts) =
      [example_hosts ! 0, example_hosts ! 3]"
    by (simp add: example_hosts_def)
  from C1_filter_read_sorted_stable [OF valid, of 2] same
  have "sorted (map priority (filter_hosts example_hosts READ))
      \<and> filter (\<lambda>h. priority h = 2) (filter_hosts example_hosts READ) =
          [example_hosts ! 0, example_hosts ! 3]"
    by simp
  with valid result show ?thesis
    by blast
qed


text \<open>
  Claim C7. \<^verbatim>\<open>mark_success(host)\<close> clears any down state on that host, and
  \<^verbatim>\<open>mark_failure(host, now)\<close> sets that host's health to \<^verbatim>\<open>down-until(now + cooldown)\<close>,
  where the cooldown is a fixed configuration value: neither operation changes it, so a
  second failure at time \<open>t\<close> gives \<^verbatim>\<open>down-until(t + cooldown)\<close> with the same cooldown.
  Neither operation changes any other host \<open>j\<close> of the registry, nor the number of
  hosts.
\<close>

theorem C7_mark_success_failure_frame:
  assumes "i < length (hosts reg)"
  shows "health (hosts (mark_success reg i) ! i) = Up
       \<and> health (hosts (mark_failure reg i now) ! i) = DownUntil (now + cooldown reg)
       \<and> cooldown (mark_success reg i) = cooldown reg
       \<and> cooldown (mark_failure reg i now) = cooldown reg
       \<and> health (hosts (mark_failure (mark_failure reg i now) i t) ! i) =
           DownUntil (t + cooldown reg)
       \<and> health (hosts (mark_success (mark_failure reg i now) i) ! i) = Up
       \<and> (j \<noteq> i \<longrightarrow> hosts (mark_success reg i) ! j = hosts reg ! j
                  \<and> hosts (mark_failure reg i now) ! j = hosts reg ! j)
       \<and> length (hosts (mark_success reg i)) = length (hosts reg)
       \<and> length (hosts (mark_failure reg i now)) = length (hosts reg)"
proof -
  have up: "health (hosts (mark_success reg i) ! i) = Up"
    using assms by (simp add: hosts_mark_success)
  have down: "health (hosts (mark_failure reg i now) ! i) = DownUntil (now + cooldown reg)"
    using assms by (simp add: hosts_mark_failure)
  have again: "health (hosts (mark_failure (mark_failure reg i now) i t) ! i) =
      DownUntil (t + cooldown reg)"
    using assms by (simp add: hosts_mark_failure)
  have cleared: "health (hosts (mark_success (mark_failure reg i now) i) ! i) = Up"
    using assms by (simp add: hosts_mark_success)
  have frame: "hosts (mark_success reg i) ! j = hosts reg ! j
      \<and> hosts (mark_failure reg i now) ! j = hosts reg ! j" if "j \<noteq> i"
    using assms that by (simp add: hosts_mark_success hosts_mark_failure)
  from up down again cleared frame show ?thesis
    by simp
qed

theorem C7_mark_success_failure_frame_witness:
  "health (hosts (mark_success \<lparr>hosts = example_hosts, cooldown = 120\<rparr> 2) ! 2) = Up
   \<and> health (hosts (mark_failure \<lparr>hosts = example_hosts, cooldown = 120\<rparr> 2 1000) ! 2) =
       DownUntil 1120
   \<and> hosts (mark_failure \<lparr>hosts = example_hosts, cooldown = 120\<rparr> 2 1000) ! 0 =
       example_hosts ! 0"
proof -
  have valid: "2 < length (hosts \<lparr>hosts = example_hosts, cooldown = 120\<rparr>)"
    by (simp add: example_hosts_def)
  from C7_mark_success_failure_frame [OF valid, of 1000 0 0] show ?thesis
    by simp
qed

end
